theory Spec2Isabelle
  imports Complex_Main "HOL-Library.Sublist"
begin

section \<open>The Advertisement service of \<^verbatim>\<open>src/app.py\<close>\<close>

text \<open>
  The module is a set of HTTP handlers over one relational table. The embedding keeps the
  handlers as functions from the table contents to a result and the new table contents.
  What the handlers delegate to the libraries they call is written out where a property
  depends on it: the rendering of \<^verbatim>\<open>Column.contains\<close> as a \<^verbatim>\<open>LIKE\<close> pattern
  and its evaluation by SQLite, the \<^verbatim>\<open>NOT NULL\<close> columns that the field declarations
  produce, the binding of Python values to statement parameters, the row id that SQLite
  gives to an inserted row, and the rendering of a returned record as JSON.
\<close>

subsection \<open>Models (lines 6 to 27)\<close>

text \<open>
  A \<^verbatim>\<open>float\<close> is a finite number, an infinity or NaN. The handlers only store and
  compare prices, so a finite float is kept as the real number it denotes. The comparison
  is that of the floats: an infinity is beyond every finite number, and NaN compares with
  nothing, not even with itself.
\<close>

datatype pyfloat = Finite real | PosInf | NegInf | NaN

instantiation pyfloat :: ord
begin

fun less_eq_pyfloat :: "pyfloat \<Rightarrow> pyfloat \<Rightarrow> bool" where
  "less_eq_pyfloat NaN y = False"
| "less_eq_pyfloat x NaN = False"
| "less_eq_pyfloat NegInf y = True"
| "less_eq_pyfloat x PosInf = True"
| "less_eq_pyfloat (Finite a) (Finite b) = (a \<le> b)"
| "less_eq_pyfloat x y = False"

definition less_pyfloat :: "pyfloat \<Rightarrow> pyfloat \<Rightarrow> bool" where
  "less_pyfloat x y = (x \<le> y \<and> \<not> y \<le> x)"

instance ..

end

fun isfinite :: "pyfloat \<Rightarrow> bool" where
  "isfinite (Finite x) = True"
| "isfinite x = False"

text \<open>
  A \<^verbatim>\<open>datetime\<close> is kept as its number of microseconds since the epoch. A string is
  a list of characters: a \<^typ>\<open>char\<close> stands for one character of the Python string (one of
  the first 256 code points), not for one byte of an encoding.
\<close>

type_synonym datetime = int

record AdvertisementBase =
  title :: string
  description :: "string option"
  price :: pyfloat
  author :: string

text \<open>
  A persisted row of the table \<^verbatim>\<open>advertisement\<close> (class \<^verbatim>\<open>Advertisement\<close>,
  and the response model \<^verbatim>\<open>AdvertisementRead\<close>, which has the same fields). The
  field \<^verbatim>\<open>id\<close> is written \<open>id'\<close>.
\<close>

record Advertisement = AdvertisementBase +
  id' :: int
  created_at :: datetime

type_synonym AdvertisementCreate = AdvertisementBase

text \<open>
  \<^verbatim>\<open>AdvertisementUpdate\<close>: every field is \<^verbatim>\<open>Optional\<close> with default
  \<^verbatim>\<open>None\<close>. The model object also records which fields the request named
  (\<^verbatim>\<open>__fields_set__\<close>): \<open>Unset\<close> is a field the request did not name, \<open>Set v\<close> one
  it named, with the value \<open>v\<close>, which may be \<^verbatim>\<open>None\<close> (JSON \<^verbatim>\<open>null\<close>).
\<close>

datatype 'a field = Unset | Set 'a

record AdvertisementUpdate =
  upd_title :: "string option field"
  upd_description :: "string option field"
  upd_price :: "pyfloat option field"
  upd_author :: "string option field"

text \<open>
  The errors of a request. \<open>StoreError\<close> is an exception of the database layer and
  \<open>ResponseError\<close> one raised while the returned record is rendered; neither is caught,
  and the framework answers both with 500.
\<close>

datatype error = ValidationError | NotFound | StoreError | ResponseError

fun http_status :: "error \<Rightarrow> nat" where
  "http_status ValidationError = 422"
| "http_status NotFound = 404"
| "http_status StoreError = 500"
| "http_status ResponseError = 500"

text \<open>The status line of a response: the route's success code, or the code of the error.\<close>

fun status_code :: "nat \<Rightarrow> error + 'a \<Rightarrow> nat" where
  "status_code ok (Inr _) = ok"
| "status_code ok (Inl e) = http_status e"

subsection \<open>The table\<close>

text \<open>
  The state of the service is the content of the table, a list of rows in row id order.
  \<^verbatim>\<open>session.get(Advertisement, ad_id)\<close> selects the row with that primary key. The
  id is bound to the statement as a 64-bit signed integer; for a Python integer outside
  that range the driver raises \<^verbatim>\<open>OverflowError\<close> and no statement is run.
\<close>

type_synonym store = "Advertisement list"

definition int64 :: "int \<Rightarrow> bool" where
  "int64 i = (- (2 ^ 63) \<le> i \<and> i < 2 ^ 63)"

definition session_get :: "store \<Rightarrow> int \<Rightarrow> error + Advertisement option" where
  "session_get session ad_id =
     (if int64 ad_id then Inr (find (\<lambda>ad. id' ad = ad_id) session) else Inl StoreError)"

text \<open>
  The column \<^verbatim>\<open>id\<close> is an \<^verbatim>\<open>INTEGER PRIMARY KEY\<close>: a row inserted without an id
  gets 1 in an empty table and the largest id in the table plus one otherwise. (Once the
  largest id is the last 64-bit integer, SQLite tries unused ids at random instead; the
  properties that depend on the new id being found again assume that this has not
  happened.)
\<close>

definition next_rowid :: "store \<Rightarrow> int" where
  "next_rowid session = (if session = [] then 1 else Max (set (map id' session)) + 1)"

text \<open>
  The primary key constraint of the table: no two rows have the same id. It holds of the
  empty table and every handler keeps it.
\<close>

definition primary_key :: "store \<Rightarrow> bool" where
  "primary_key session = distinct (map id' session)"

text \<open>
  A Python value that is bound to a statement as SQL \<^verbatim>\<open>NULL\<close>: \<^verbatim>\<open>None\<close>, and
  the float NaN, which SQLite turns into \<^verbatim>\<open>NULL\<close>. The columns \<^verbatim>\<open>title\<close>,
  \<^verbatim>\<open>price\<close> and \<^verbatim>\<open>author\<close> are declared without \<^verbatim>\<open>Optional\<close> and so
  are \<^verbatim>\<open>NOT NULL\<close>: a statement that writes \<^verbatim>\<open>NULL\<close> to one of them is refused,
  the commit raises and nothing is written.
\<close>

datatype pyval = PNone | PInt int | PFloat pyfloat | PStr string | PDatetime datetime

fun binds_null :: "pyval \<Rightarrow> bool" where
  "binds_null PNone = True"
| "binds_null (PFloat NaN) = True"
| "binds_null v = False"

definition not_null :: "string list" where
  "not_null = [''title'', ''price'', ''author'']"

subsection \<open>Search (lines 72 to 89)\<close>










subsection \<open>Get and delete (lines 57 to 70)\<close>

definition get_ad :: "int \<Rightarrow> store \<Rightarrow> (error + Advertisement) \<times> store" where
  "get_ad ad_id session =
     (case session_get session ad_id of
        Inl e \<Rightarrow> (Inl e, session)
      | Inr None \<Rightarrow> (Inl NotFound, session)
      | Inr (Some ad) \<Rightarrow> (Inr ad, session))"

text \<open>\<^verbatim>\<open>session.delete(ad)\<close> deletes the row whose primary key is that of \<open>ad\<close>.\<close>

definition delete_ad :: "int \<Rightarrow> store \<Rightarrow> (error + unit) \<times> store" where
  "delete_ad ad_id session =
     (case session_get session ad_id of
        Inl e \<Rightarrow> (Inl e, session)
      | Inr None \<Rightarrow> (Inl NotFound, session)
      | Inr (Some ad) \<Rightarrow> (Inr (), filter (\<lambda>r. id' r \<noteq> id' ad) session))"

subsection \<open>Create (lines 37 to 43)\<close>

text \<open>
  \<^verbatim>\<open>Advertisement.from_orm(ad)\<close> copies the four fields of the payload and takes the
  defaults of the other two: no id, and the time \<open>now\<close> that \<^verbatim>\<open>datetime.utcnow\<close>
  returns. The commit inserts the row, which gets its id from the table; a price that is
  bound as \<^verbatim>\<open>NULL\<close> is refused by its column.
\<close>

definition create_ad :: "datetime \<Rightarrow> AdvertisementCreate \<Rightarrow> store \<Rightarrow> (error + Advertisement) \<times> store" where
  "create_ad now ad session =
     (if binds_null (PFloat (price ad)) then (Inl StoreError, session)
      else
        (let db_ad = \<lparr>title = title ad, description = description ad, price = price ad,
                      author = author ad, id' = next_rowid session, created_at = now\<rparr>
         in (Inr db_ad, session @ [db_ad])))"

subsection \<open>Partial update (lines 45 to 55)\<close>

text \<open>
  The loop assigns attributes by name, so the instance is kept as Python keeps it: a
  dictionary from attribute names to values.
\<close>

type_synonym pyobject = "string \<rightharpoonup> pyval"

fun py_str :: "string option \<Rightarrow> pyval" where
  "py_str None = PNone"
| "py_str (Some s) = PStr s"

fun py_float :: "pyfloat option \<Rightarrow> pyval" where
  "py_float None = PNone"
| "py_float (Some x) = PFloat x"

definition attrs_of :: "Advertisement \<Rightarrow> pyobject" where
  "attrs_of ad =
     [''id'' \<mapsto> PInt (id' ad),
      ''title'' \<mapsto> PStr (title ad),
      ''description'' \<mapsto> py_str (description ad),
      ''price'' \<mapsto> PFloat (price ad),
      ''author'' \<mapsto> PStr (author ad),
      ''created_at'' \<mapsto> PDatetime (created_at ad)]"

text \<open>\<^verbatim>\<open>ad_update.dict(exclude_unset=True).items()\<close>: the fields the request named, in
  declaration order.\<close>

fun item :: "string \<Rightarrow> pyval field \<Rightarrow> (string \<times> pyval) list" where
  "item k Unset = []"
| "item k (Set v) = [(k, v)]"

definition dict_exclude_unset :: "AdvertisementUpdate \<Rightarrow> (string \<times> pyval) list" where
  "dict_exclude_unset u =
     item ''title'' (map_field py_str (upd_title u)) @
     item ''description'' (map_field py_str (upd_description u)) @
     item ''price'' (map_field py_float (upd_price u)) @
     item ''author'' (map_field py_str (upd_author u))"

definition setattr :: "pyobject \<Rightarrow> string \<Rightarrow> pyval \<Rightarrow> pyobject" where
  "setattr obj k v = obj(k \<mapsto> v)"

text \<open>
  The commit writes the assigned attributes with one \<^verbatim>\<open>UPDATE\<close> statement, which
  is refused when it writes \<^verbatim>\<open>NULL\<close> to a \<^verbatim>\<open>NOT NULL\<close> column.
\<close>

definition refused :: "(string \<times> pyval) list \<Rightarrow> bool" where
  "refused items = list_ex (\<lambda>(k, v). k \<in> set not_null \<and> binds_null v) items"

text \<open>
  The row that the refresh reads back into the instance. (\<open>row_of\<close> is \<open>None\<close> for an
  attribute of the wrong type, which no validated payload that is not refused produces.)
\<close>

fun col_int :: "pyval option \<Rightarrow> int option" where
  "col_int (Some (PInt i)) = Some i"
| "col_int _ = None"

fun col_str :: "pyval option \<Rightarrow> string option" where
  "col_str (Some (PStr s)) = Some s"
| "col_str _ = None"

fun col_float :: "pyval option \<Rightarrow> pyfloat option" where
  "col_float (Some (PFloat x)) = Some x"
| "col_float _ = None"

fun col_datetime :: "pyval option \<Rightarrow> datetime option" where
  "col_datetime (Some (PDatetime d)) = Some d"
| "col_datetime _ = None"

fun col_str_nullable :: "pyval option \<Rightarrow> string option option" where
  "col_str_nullable (Some PNone) = Some None"
| "col_str_nullable (Some (PStr s)) = Some (Some s)"
| "col_str_nullable _ = None"

definition row_of :: "pyobject \<Rightarrow> Advertisement option" where
  "row_of obj =
     Option.bind (col_int (obj ''id'')) (\<lambda>i.
     Option.bind (col_str (obj ''title'')) (\<lambda>t.
     Option.bind (col_str_nullable (obj ''description'')) (\<lambda>d.
     Option.bind (col_float (obj ''price'')) (\<lambda>p.
     Option.bind (col_str (obj ''author'')) (\<lambda>a.
     Option.bind (col_datetime (obj ''created_at'')) (\<lambda>c.
       Some \<lparr>title = t, description = d, price = p, author = a, id' = i, created_at = c\<rparr>))))))"

definition update_ad :: "int \<Rightarrow> AdvertisementUpdate \<Rightarrow> store \<Rightarrow> (error + Advertisement) \<times> store" where
  "update_ad ad_id ad_update session =
     (case session_get session ad_id of
        Inl e \<Rightarrow> (Inl e, session)
      | Inr None \<Rightarrow> (Inl NotFound, session)
      | Inr (Some ad) \<Rightarrow>
          (let obj = fold (\<lambda>(k, v) obj. setattr obj k v) (dict_exclude_unset ad_update) (attrs_of ad)
           in if refused (dict_exclude_unset ad_update) then (Inl StoreError, session)
              else case row_of obj of
                None \<Rightarrow> (Inl StoreError, session)
              | Some ad' \<Rightarrow> (Inr ad', map (\<lambda>r. if id' r = ad_id then ad' else r) session)))"

text \<open>The instance after the loop of \<open>update_ad\<close>.\<close>

abbreviation (input) "assign_all u ad \<equiv>
  fold (\<lambda>(k, v) obj. setattr obj k v) (dict_exclude_unset u) (attrs_of ad)"

subsection \<open>Request validation, response and routes\<close>

text \<open>
  The framework parses the request body as JSON and validates it against the model class
  of the handler's parameter before the handler runs; a body that fails is answered with
  422 and the handler is not called. A field declared without a default is required, a
  field that is not \<^verbatim>\<open>Optional\<close> refuses \<^verbatim>\<open>null\<close>, and members that the
  class does not declare are ignored.
\<close>

datatype json =
    JNull
  | JBool bool
  | JNumber real
  | JString string
  | JArray "json list"
  | JObject "(string \<times> json) list"

text \<open>The dictionary of an object: a later member replaces an earlier one of the same name.\<close>

definition members :: "(string \<times> json) list \<Rightarrow> (string \<rightharpoonup> json)" where
  "members kvs = map_of (rev kvs)"

text \<open>
  Which JSON values the validation library accepts for a \<^verbatim>\<open>str\<close> and for a
  \<^verbatim>\<open>float\<close> field, and what it converts them to, is the library's, as is what it
  makes of a body that is not an object (one version reads a list of pairs as a
  dictionary, another refuses it); the three conversions are parameters.
\<close>

record validators =
  str_validator :: "json \<Rightarrow> string option"
  float_validator :: "json \<Rightarrow> pyfloat option"
  dict_validator :: "json \<Rightarrow> (string \<rightharpoonup> json) option"

definition body_dict :: "validators \<Rightarrow> json \<Rightarrow> (string \<rightharpoonup> json) option" where
  "body_dict V body = (case body of JObject kvs \<Rightarrow> Some (members kvs) | _ \<Rightarrow> dict_validator V body)"

fun required :: "(json \<Rightarrow> 'a option) \<Rightarrow> json option \<Rightarrow> 'a option" where
  "required v None = None"
| "required v (Some JNull) = None"
| "required v (Some j) = v j"

fun optional :: "(json \<Rightarrow> 'a option) \<Rightarrow> json option \<Rightarrow> 'a option option" where
  "optional v None = Some None"
| "optional v (Some JNull) = Some None"
| "optional v (Some j) = map_option Some (v j)"

fun optional_field :: "(json \<Rightarrow> 'a option) \<Rightarrow> json option \<Rightarrow> 'a option field option" where
  "optional_field v None = Some Unset"
| "optional_field v (Some JNull) = Some (Set None)"
| "optional_field v (Some j) = map_option (\<lambda>x. Set (Some x)) (v j)"

definition validate_create :: "validators \<Rightarrow> json \<Rightarrow> AdvertisementCreate option" where
  "validate_create V body =
     Option.bind (body_dict V body) (\<lambda>m.
     Option.bind (required (str_validator V) (m ''title'')) (\<lambda>t.
     Option.bind (optional (str_validator V) (m ''description'')) (\<lambda>d.
     Option.bind (required (float_validator V) (m ''price'')) (\<lambda>p.
     Option.bind (required (str_validator V) (m ''author'')) (\<lambda>a.
       Some \<lparr>title = t, description = d, price = p, author = a\<rparr>)))))"

definition validate_update :: "validators \<Rightarrow> json \<Rightarrow> AdvertisementUpdate option" where
  "validate_update V body =
     Option.bind (body_dict V body) (\<lambda>m.
     Option.bind (optional_field (str_validator V) (m ''title'')) (\<lambda>t.
     Option.bind (optional_field (str_validator V) (m ''description'')) (\<lambda>d.
     Option.bind (optional_field (float_validator V) (m ''price'')) (\<lambda>p.
     Option.bind (optional_field (str_validator V) (m ''author'')) (\<lambda>a.
       Some \<lparr>upd_title = t, upd_description = d, upd_price = p, upd_author = a\<rparr>)))))"

text \<open>
  The record a handler returns is rendered as JSON after the handler has finished and
  its commit is done. JSON has no infinity and no NaN: for a price that is not finite
  the rendering raises, and the request is answered with 500.
\<close>

definition render :: "Advertisement \<Rightarrow> error + Advertisement" where
  "render ad = (if isfinite (price ad) then Inr ad else Inl ResponseError)"

fun respond :: "(error + Advertisement) \<times> store \<Rightarrow> (error + Advertisement) \<times> store" where
  "respond (Inr ad, session) = (render ad, session)"
| "respond (Inl e, session) = (Inl e, session)"

text \<open>\<^verbatim>\<open>POST /advertisement\<close>, success code 201.\<close>

definition post_advertisement ::
  "validators \<Rightarrow> datetime \<Rightarrow> json \<Rightarrow> store \<Rightarrow> (error + Advertisement) \<times> store" where
  "post_advertisement V now body session =
     (case validate_create V body of
        None \<Rightarrow> (Inl ValidationError, session)
      | Some ad \<Rightarrow> respond (create_ad now ad session))"

text \<open>\<^verbatim>\<open>PATCH /advertisement/{ad_id}\<close>, success code 200.\<close>

definition patch_advertisement ::
  "validators \<Rightarrow> int \<Rightarrow> json \<Rightarrow> store \<Rightarrow> (error + Advertisement) \<times> store" where
  "patch_advertisement V ad_id body session =
     (case validate_update V body of
        None \<Rightarrow> (Inl ValidationError, session)
      | Some ad_update \<Rightarrow> respond (update_ad ad_id ad_update session))"

text \<open>\<^verbatim>\<open>GET /advertisement/{ad_id}\<close>, success code 200.\<close>

definition get_advertisement :: "int \<Rightarrow> store \<Rightarrow> (error + Advertisement) \<times> store" where
  "get_advertisement ad_id session = respond (get_ad ad_id session)"

text \<open>
  Validators for the examples. A JSON string is taken for a \<^verbatim>\<open>str\<close> field and a
  JSON number for a \<^verbatim>\<open>float\<close> field, which every version of the library accepts;
  everything else, and a body that is not an object, is refused. A number is read as the
  nearest float, which is an infinity from half a step past the largest float on; the
  rounding of the numbers below that is left out.
\<close>

definition to_float :: "real \<Rightarrow> pyfloat" where
  "to_float x =
     (if x \<ge> 2 ^ 1024 - 2 ^ 970 then PosInf
      else if x \<le> - (2 ^ 1024 - 2 ^ 970) then NegInf
      else Finite x)"

definition plain :: validators where
  "plain = \<lparr>str_validator = (\<lambda>j. case j of JString s \<Rightarrow> Some s | _ \<Rightarrow> None),
            float_validator = (\<lambda>j. case j of JNumber x \<Rightarrow> Some (to_float x) | _ \<Rightarrow> None),
            dict_validator = (\<lambda>j. None)\<rparr>"

subsection \<open>Example rows and request bodies\<close>

definition bike :: Advertisement where
  "bike = \<lparr>title = ''Bike'', description = None, price = Finite 100, author = ''A'',
           id' = 1, created_at = 0\<rparr>"

definition skates :: Advertisement where
  "skates = \<lparr>title = ''Skates'', description = Some ''used'', price = Finite 5, author = ''B'',
             id' = 2, created_at = 3\<rparr>"

text \<open>
  A valid body that also names an id, one whose price is not a number, one without a
  title, and one whose price is the JSON number \<^verbatim>\<open>1e309\<close>.
\<close>

definition bike_body :: json where
  "bike_body = JObject [(''title'', JString ''Bike''), (''price'', JNumber 100),
                        (''author'', JString ''A''), (''id'', JNumber 7)]"

definition bad_price_body :: json where
  "bad_price_body = JObject [(''title'', JString ''Bike''), (''price'', JString ''cheap''),
                             (''author'', JString ''A'')]"

definition no_title_body :: json where
  "no_title_body = JObject [(''price'', JNumber 100), (''author'', JString ''A'')]"

definition huge_price_body :: json where
  "huge_price_body = JObject [(''title'', JString ''Yacht''), (''price'', JNumber (10 ^ 309)),
                              (''author'', JString ''A'')]"

section \<open>Properties\<close>

subsection \<open>Looking up a row\<close>

lemma session_get_absent:
  "int64 ad_id \<Longrightarrow> ad_id \<notin> id' ` set session \<Longrightarrow> session_get session ad_id = Inr None"
  by (auto simp: session_get_def find_None_iff)

lemma session_get_found:
  "session_get session ad_id = Inr (Some ad) \<Longrightarrow> ad \<in> set session \<and> id' ad = ad_id"
  by (auto simp: session_get_def find_Some_iff split: if_splits)

lemma session_get_present:
  "int64 ad_id \<Longrightarrow> ad_id \<in> id' ` set session \<Longrightarrow> \<exists>ad. session_get session ad_id = Inr (Some ad)"
  by (cases "find (\<lambda>ad. id' ad = ad_id) session") (auto simp: session_get_def find_None_iff)

lemma session_get_filter_out:
  "int64 ad_id \<Longrightarrow> session_get (filter (\<lambda>r. id' r \<noteq> ad_id) session) ad_id = Inr None"
  by (rule session_get_absent) auto

lemma find_snoc:
  "find P (xs @ [x]) =
     (case find P xs of None \<Rightarrow> if P x then Some x else None | Some y \<Rightarrow> Some y)"
  by (induction xs) simp_all

lemma next_rowid_above: "r \<in> set session \<Longrightarrow> id' r < next_rowid session"
proof -
  assume r: "r \<in> set session"
  then have "session \<noteq> []" by auto
  moreover have "id' r \<le> Max (set (map id' session))"
    using r by (intro Max_ge) auto
  ultimately show ?thesis by (simp add: next_rowid_def)
qed

lemma next_rowid_fresh: "next_rowid session \<notin> id' ` set session"
  using next_rowid_above by fastforce

lemma session_get_inserted:
  assumes "id' r = next_rowid session" and "int64 (next_rowid session)"
  shows "session_get (session @ [r]) (id' r) = Inr (Some r)"
proof -
  have "find (\<lambda>ad. id' ad = next_rowid session) session = None"
    using next_rowid_above [of _ session] by (fastforce simp: find_None_iff)
  then show ?thesis using assms by (simp add: session_get_def find_snoc)
qed

subsection \<open>Operations on an id that is not in the table\<close>

text \<open>
  C3 as stated fails: an id outside the signed 64-bit range is in no table, yet the
  lookup of it does not end with \<open>NotFound\<close>; the driver cannot bind it, and the request
  ends with a store error, status 500.
\<close>

theorem not_found_out_of_range_counterexample:
  "9223372036854775808 \<notin> id' ` set [bike]
   \<and> get_ad 9223372036854775808 [bike] = (Inl StoreError, [bike])
   \<and> http_status StoreError = 500"
  by (simp add: get_ad_def session_get_def int64_def bike_def)

text \<open>
  C3, amended: when the id is a signed 64-bit integer and no row of the table has it,
  \<open>get_ad\<close>, \<open>update_ad\<close> (for every update payload) and \<open>delete_ad\<close> each fail with
  \<open>NotFound\<close>, whose status is 404, and return the table as it was.
\<close>

theorem not_found_leaves_store:
  assumes "ad_id \<notin> id' ` set session" and "int64 ad_id"
  shows "get_ad ad_id session = (Inl NotFound, session)
       \<and> update_ad ad_id ad_update session = (Inl NotFound, session)
       \<and> delete_ad ad_id session = (Inl NotFound, session)
       \<and> http_status NotFound = 404"
proof -
  have "session_get session ad_id = Inr None"
    using assms by (simp add: session_get_absent)
  then show ?thesis
    by (simp add: get_ad_def update_ad_def delete_ad_def)
qed

theorem not_found_leaves_store_witness:
  "2 \<notin> id' ` set [bike] \<and> int64 2
   \<and> get_ad 2 [bike] = (Inl NotFound, [bike])
   \<and> update_ad 2 \<lparr>upd_title = Set (Some ''Car''), upd_description = Unset,
                   upd_price = Unset, upd_author = Unset\<rparr> [bike] = (Inl NotFound, [bike])
   \<and> delete_ad 2 [bike] = (Inl NotFound, [bike])
   \<and> http_status NotFound = 404"
proof -
  have h: "2 \<notin> id' ` set [bike]" by (simp add: bike_def)
  have i: "int64 2" by (simp add: int64_def)
  show ?thesis using h i not_found_leaves_store [OF h i] by simp
qed

subsection \<open>Delete\<close>

text \<open>
  C4: when a row of the table has the id (a row id of SQLite, so a signed 64-bit
  integer), \<open>delete_ad\<close> succeeds with an empty result and status 204, the table keeps
  exactly the rows with another id, and \<open>get_ad\<close> on the same id afterwards fails with
  \<open>NotFound\<close>.
\<close>

theorem delete_then_get:
  assumes "ad_id \<in> id' ` set session" and "int64 ad_id"
  shows "fst (delete_ad ad_id session) = Inr ()
       \<and> status_code 204 (fst (delete_ad ad_id session)) = 204
       \<and> snd (delete_ad ad_id session) = filter (\<lambda>r. id' r \<noteq> ad_id) session
       \<and> ad_id \<notin> id' ` set (snd (delete_ad ad_id session))
       \<and> fst (get_ad ad_id (snd (delete_ad ad_id session))) = Inl NotFound"
proof -
  obtain ad where ad: "session_get session ad_id = Inr (Some ad)"
    using assms session_get_present by blast
  then have "id' ad = ad_id" by (simp add: session_get_found)
  then have d: "delete_ad ad_id session = (Inr (), filter (\<lambda>r. id' r \<noteq> ad_id) session)"
    using ad by (simp add: delete_ad_def)
  have "get_ad ad_id (filter (\<lambda>r. id' r \<noteq> ad_id) session)
        = (Inl NotFound, filter (\<lambda>r. id' r \<noteq> ad_id) session)"
    using assms(2) by (simp add: get_ad_def session_get_filter_out)
  then show ?thesis using d by auto
qed

theorem delete_then_get_witness:
  "1 \<in> id' ` set [bike] \<and> int64 1
   \<and> fst (delete_ad 1 [bike]) = Inr ()
   \<and> status_code 204 (fst (delete_ad 1 [bike])) = 204
   \<and> snd (delete_ad 1 [bike]) = []
   \<and> fst (get_ad 1 (snd (delete_ad 1 [bike]))) = Inl NotFound"
proof -
  have h: "1 \<in> id' ` set [bike]" by (simp add: bike_def)
  have i: "int64 1" by (simp add: int64_def)
  show ?thesis using h i delete_then_get [OF h i]
    by (simp add: bike_def get_ad_def session_get_def)
qed

subsection \<open>Search by price\<close>



subsection \<open>Matching a title\<close>














subsection \<open>All filters together\<close>






subsection \<open>Create\<close>

lemma isfinite_not_null: "isfinite p \<Longrightarrow> \<not> binds_null (PFloat p)"
  by (cases p) simp_all

lemma create_ad_result:
  "\<not> binds_null (PFloat (price ad)) \<Longrightarrow>
   create_ad now ad session =
     (Inr \<lparr>title = title ad, description = description ad, price = price ad, author = author ad,
           id' = next_rowid session, created_at = now\<rparr>,
      session @ [\<lparr>title = title ad, description = description ad, price = price ad,
                  author = author ad, id' = next_rowid session, created_at = now\<rparr>])"
  by (simp add: create_ad_def Let_def)

lemma post_advertisement_result:
  assumes "validate_create V body = Some ad" and "isfinite (price ad)"
  shows "post_advertisement V now body session =
     (Inr \<lparr>title = title ad, description = description ad, price = price ad, author = author ad,
           id' = next_rowid session, created_at = now\<rparr>,
      session @ [\<lparr>title = title ad, description = description ad, price = price ad,
                  author = author ad, id' = next_rowid session, created_at = now\<rparr>])"
  using assms isfinite_not_null [OF assms(2)]
  by (simp add: post_advertisement_def create_ad_result render_def)

lemma required_Some:
  "required v m = Some x \<longleftrightarrow> (\<exists>j. m = Some j \<and> j \<noteq> JNull \<and> v j = Some x)"
  by (cases "(v, m)" rule: required.cases) auto

lemma required_None:
  "required v m = None \<longleftrightarrow> (m = None \<or> m = Some JNull \<or> (\<exists>j. m = Some j \<and> v j = None))"
  by (cases "(v, m)" rule: required.cases) auto

text \<open>
  C8 as stated fails: the JSON number \<^verbatim>\<open>-1e309\<close> is a valid price, which is read
  as the float minus infinity. The row is stored, but the record cannot be rendered as
  JSON: the create request ends with status 500 and returns no record, and so does the
  get request for the id the row was given.
\<close>

theorem create_then_get_infinite_price_counterexample:
  "fst (post_advertisement plain 9
          (JObject [(''title'', JString ''Debt''), (''price'', JNumber (- (10 ^ 309))),
                    (''author'', JString ''A'')]) [])
     = Inl ResponseError
   \<and> fst (get_advertisement 1
            (snd (post_advertisement plain 9
                    (JObject [(''title'', JString ''Debt''), (''price'', JNumber (- (10 ^ 309))),
                              (''author'', JString ''A'')]) [])))
     = Inl ResponseError
   \<and> http_status ResponseError = 500"
  by (simp add: post_advertisement_def validate_create_def body_dict_def plain_def members_def
      to_float_def create_ad_def Let_def next_rowid_def render_def get_advertisement_def
      get_ad_def session_get_def int64_def)

text \<open>
  C8, amended: for a request body that validates to a payload \<open>ad\<close> whose price is
  finite, and a table whose next row id is a signed 64-bit integer, the create route
  succeeds with a row \<open>r\<close>, and the get route on the id of \<open>r\<close> right afterwards returns
  \<open>r\<close>, whose title, description, price and author are those of \<open>ad\<close>.
\<close>

theorem create_then_get:
  assumes "validate_create V body = Some ad"
    and "isfinite (price ad)"
    and "int64 (next_rowid session)"
  shows "\<exists>r session'. post_advertisement V now body session = (Inr r, session')
           \<and> get_advertisement (id' r) session' = (Inr r, session')
           \<and> title r = title ad \<and> description r = description ad
           \<and> price r = price ad \<and> author r = author ad"
proof -
  let ?r = "\<lparr>title = title ad, description = description ad, price = price ad,
             author = author ad, id' = next_rowid session, created_at = now\<rparr>"
  have p: "post_advertisement V now body session = (Inr ?r, session @ [?r])"
    using assms(1,2) by (rule post_advertisement_result)
  have "session_get (session @ [?r]) (id' ?r) = Inr (Some ?r)"
    using assms(3) by (intro session_get_inserted) simp_all
  then have "get_advertisement (id' ?r) (session @ [?r]) = (Inr ?r, session @ [?r])"
    using assms(2) by (simp add: get_advertisement_def get_ad_def render_def)
  then show ?thesis using p by simp
qed

theorem create_then_get_witness:
  "validate_create plain bike_body
     = Some \<lparr>title = ''Bike'', description = None, price = Finite 100, author = ''A''\<rparr>
   \<and> isfinite (Finite 100) \<and> int64 (next_rowid [skates])
   \<and> (\<exists>r session'. post_advertisement plain 9 bike_body [skates] = (Inr r, session')
         \<and> get_advertisement (id' r) session' = (Inr r, session')
         \<and> title r = ''Bike'' \<and> description r = None \<and> price r = Finite 100 \<and> author r = ''A'')"
proof -
  have h: "validate_create plain bike_body
           = Some \<lparr>title = ''Bike'', description = None, price = Finite 100, author = ''A''\<rparr>"
    by (simp add: validate_create_def body_dict_def plain_def bike_body_def members_def
        to_float_def)
  have f: "isfinite (price \<lparr>title = ''Bike'', description = None, price = Finite 100,
                            author = ''A''\<rparr>)"
    by simp
  have n: "int64 (next_rowid [skates])"
    by (simp add: next_rowid_def skates_def int64_def)
  show ?thesis using h n create_then_get [OF h f n, of 9] by simp
qed

text \<open>
  C6 as stated fails: the body whose price is the JSON number \<^verbatim>\<open>1e309\<close> has all its
  required fields well formed; the price is read as the float infinity. The row is
  stored, but the record cannot be rendered as JSON, and the request ends with status
  500, not 201.
\<close>

theorem create_infinite_price_counterexample:
  "post_advertisement plain 9 huge_price_body []
     = (Inl ResponseError,
        [\<lparr>title = ''Yacht'', description = None, price = PosInf, author = ''A'',
          id' = 1, created_at = 9\<rparr>])
   \<and> status_code 201 (fst (post_advertisement plain 9 huge_price_body [])) = 500"
  by (simp add: post_advertisement_def validate_create_def body_dict_def huge_price_body_def
      plain_def members_def to_float_def create_ad_def Let_def next_rowid_def render_def)

text \<open>
  C6, amended: when the body is an object whose title, price and author are present, not
  null and accepted by the validators, the price as a finite number (and whose
  description is absent, null or accepted), the create route answers 201 with the row it
  appended to the table, which carries the validated fields, the creation time and a
  generated id, different from every id in the table. When the title, the price or the
  author is missing from the body, is null, or is refused by its validator, the route
  answers 422 with \<open>ValidationError\<close> and the table is unchanged.
\<close>

theorem create_validates:
  "(body = JObject kvs
      \<and> members kvs ''title'' = Some jt \<and> jt \<noteq> JNull \<and> str_validator V jt = Some t
      \<and> optional (str_validator V) (members kvs ''description'') = Some d
      \<and> members kvs ''price'' = Some jp \<and> jp \<noteq> JNull \<and> float_validator V jp = Some (Finite p)
      \<and> members kvs ''author'' = Some ja \<and> ja \<noteq> JNull \<and> str_validator V ja = Some a \<longrightarrow>
    (\<exists>r. post_advertisement V now body session = (Inr r, session @ [r])
        \<and> status_code 201 (fst (post_advertisement V now body session)) = 201
        \<and> title r = t \<and> description r = d \<and> price r = Finite p \<and> author r = a
        \<and> created_at r = now \<and> id' r \<notin> id' ` set session))
   \<and> (body = JObject kvs
      \<and> (members kvs ''title'' = None \<or> members kvs ''price'' = None
         \<or> members kvs ''author'' = None
         \<or> members kvs ''title'' = Some JNull \<or> members kvs ''price'' = Some JNull
         \<or> members kvs ''author'' = Some JNull
         \<or> (members kvs ''title'' = Some j \<and> str_validator V j = None)
         \<or> (members kvs ''price'' = Some j \<and> float_validator V j = None)
         \<or> (members kvs ''author'' = Some j \<and> str_validator V j = None)) \<longrightarrow>
      post_advertisement V now body session = (Inl ValidationError, session)
      \<and> status_code 201 (fst (post_advertisement V now body session)) = 422)"
proof -
  have ok: "\<exists>r. post_advertisement V now body session = (Inr r, session @ [r])
        \<and> status_code 201 (fst (post_advertisement V now body session)) = 201
        \<and> title r = t \<and> description r = d \<and> price r = Finite p \<and> author r = a
        \<and> created_at r = now \<and> id' r \<notin> id' ` set session"
    if a: "body = JObject kvs
      \<and> members kvs ''title'' = Some jt \<and> jt \<noteq> JNull \<and> str_validator V jt = Some t
      \<and> optional (str_validator V) (members kvs ''description'') = Some d
      \<and> members kvs ''price'' = Some jp \<and> jp \<noteq> JNull \<and> float_validator V jp = Some (Finite p)
      \<and> members kvs ''author'' = Some ja \<and> ja \<noteq> JNull \<and> str_validator V ja = Some a"
  proof -
    have "required (str_validator V) (members kvs ''title'') = Some t"
      and "required (float_validator V) (members kvs ''price'') = Some (Finite p)"
      and "required (str_validator V) (members kvs ''author'') = Some a"
      using a by (simp_all add: required_Some)
    then have v: "validate_create V body
               = Some \<lparr>title = t, description = d, price = Finite p, author = a\<rparr>"
      using a by (simp add: validate_create_def body_dict_def)
    have "post_advertisement V now body session =
        (Inr \<lparr>title = t, description = d, price = Finite p, author = a,
               id' = next_rowid session, created_at = now\<rparr>,
         session @ [\<lparr>title = t, description = d, price = Finite p, author = a,
               id' = next_rowid session, created_at = now\<rparr>])"
      using post_advertisement_result [OF v, of now session] by simp
    then show ?thesis using next_rowid_fresh [of session] by simp
  qed
  have bad: "post_advertisement V now body session = (Inl ValidationError, session)
      \<and> status_code 201 (fst (post_advertisement V now body session)) = 422"
    if b: "body = JObject kvs
      \<and> (members kvs ''title'' = None \<or> members kvs ''price'' = None
         \<or> members kvs ''author'' = None
         \<or> members kvs ''title'' = Some JNull \<or> members kvs ''price'' = Some JNull
         \<or> members kvs ''author'' = Some JNull
         \<or> (members kvs ''title'' = Some j \<and> str_validator V j = None)
         \<or> (members kvs ''price'' = Some j \<and> float_validator V j = None)
         \<or> (members kvs ''author'' = Some j \<and> str_validator V j = None))"
  proof -
    have "required (str_validator V) (members kvs ''title'') = None
        \<or> required (float_validator V) (members kvs ''price'') = None
        \<or> required (str_validator V) (members kvs ''author'') = None"
      using b unfolding required_None by blast
    then have "validate_create V body = None"
      using b by (auto simp: validate_create_def body_dict_def Option.bind_eq_None_conv)
    then show ?thesis by (simp add: post_advertisement_def)
  qed
  show ?thesis using ok bad by blast
qed

theorem create_validates_witness:
  "post_advertisement plain 9 bike_body [skates]
     = (Inr \<lparr>title = ''Bike'', description = None, price = Finite 100, author = ''A'',
             id' = 3, created_at = 9\<rparr>,
        [skates, \<lparr>title = ''Bike'', description = None, price = Finite 100, author = ''A'',
             id' = 3, created_at = 9\<rparr>])
   \<and> post_advertisement plain 9 no_title_body [skates] = (Inl ValidationError, [skates])
   \<and> post_advertisement plain 9 bad_price_body [skates] = (Inl ValidationError, [skates])
   \<and> status_code 201 (fst (post_advertisement plain 9 bad_price_body [skates])) = 422"
proof -
  have p: "post_advertisement plain 9 bike_body [skates]
     = (Inr \<lparr>title = ''Bike'', description = None, price = Finite 100, author = ''A'',
             id' = 3, created_at = 9\<rparr>,
        [skates, \<lparr>title = ''Bike'', description = None, price = Finite 100, author = ''A'',
             id' = 3, created_at = 9\<rparr>])"
    by (simp add: post_advertisement_def validate_create_def body_dict_def plain_def
        bike_body_def members_def to_float_def create_ad_def Let_def next_rowid_def
        skates_def render_def)
  have missing: "members [(''price'', JNumber 100), (''author'', JString ''A'')] ''title'' = None"
    by (simp add: members_def)
  have malformed: "members [(''title'', JString ''Bike''), (''price'', JString ''cheap''),
                           (''author'', JString ''A'')] ''price'' = Some (JString ''cheap'')
                  \<and> float_validator plain (JString ''cheap'') = None"
    by (simp add: members_def plain_def)
  have wellformed: "members [(''title'', JString ''Bike''), (''price'', JNumber 100),
                            (''author'', JString ''A''), (''id'', JNumber 7)] = m \<Longrightarrow>
      m ''title'' = Some (JString ''Bike'') \<and> str_validator plain (JString ''Bike'') = Some ''Bike''
      \<and> optional (str_validator plain) (m ''description'') = Some None
      \<and> m ''price'' = Some (JNumber 100) \<and> float_validator plain (JNumber 100) = Some (Finite 100)
      \<and> m ''author'' = Some (JString ''A'') \<and> str_validator plain (JString ''A'') = Some ''A''" for m
    by (auto simp: members_def plain_def to_float_def)
  show ?thesis
    using p missing malformed wellformed [OF refl]
      create_validates [where body = bike_body
        and kvs = "[(''title'', JString ''Bike''), (''price'', JNumber 100),
                    (''author'', JString ''A''), (''id'', JNumber 7)]"
        and V = plain and jt = "JString ''Bike''" and t = "''Bike''" and d = None
        and jp = "JNumber 100" and p = 100 and ja = "JString ''A''" and a = "''A''"
        and now = 9 and session = "[skates]"]
      create_validates [where body = no_title_body
        and kvs = "[(''price'', JNumber 100), (''author'', JString ''A'')]"
        and V = plain and now = 9 and session = "[skates]"]
      create_validates [where body = bad_price_body
        and kvs = "[(''title'', JString ''Bike''), (''price'', JString ''cheap''),
                    (''author'', JString ''A'')]"
        and V = plain and now = 9 and session = "[skates]" and j = "JString ''cheap''"]
    by (simp add: bike_body_def no_title_body_def bad_price_body_def)
qed

subsection \<open>The loop of the partial update\<close>

lemma fold_setattr_other:
  "k \<notin> fst ` set kvs \<Longrightarrow> fold (\<lambda>(k, v) obj. setattr obj k v) kvs obj k = obj k"
  by (induction kvs arbitrary: obj) (auto simp: setattr_def)

lemma item_keys: "fst ` set (item k f) \<subseteq> {k}"
  by (cases f) simp_all

lemma dict_exclude_unset_keys:
  "fst ` set (dict_exclude_unset u) \<subseteq> {''title'', ''description'', ''price'', ''author''}"
proof -
  have "fst ` set (item k f) \<subseteq> {''title'', ''description'', ''price'', ''author''}"
    if "k \<in> {''title'', ''description'', ''price'', ''author''}" for k and f :: "pyval field"
    using item_keys [of k f] that by blast
  then show ?thesis
    by (simp add: dict_exclude_unset_def image_Un)
qed

lemma assign_all_id: "assign_all u ad ''id'' = Some (PInt (id' ad))"
proof -
  have "''id'' \<notin> fst ` set (dict_exclude_unset u)"
    using dict_exclude_unset_keys [of u] by auto
  then have "assign_all u ad ''id'' = attrs_of ad ''id''"
    by (rule fold_setattr_other)
  then show ?thesis by (simp add: attrs_of_def)
qed

lemma assign_all_created_at: "assign_all u ad ''created_at'' = Some (PDatetime (created_at ad))"
proof -
  have "''created_at'' \<notin> fst ` set (dict_exclude_unset u)"
    using dict_exclude_unset_keys [of u] by auto
  then have "assign_all u ad ''created_at'' = attrs_of ad ''created_at''"
    by (rule fold_setattr_other)
  then show ?thesis by (simp add: attrs_of_def)
qed

lemma col_int_Some: "col_int x = Some i \<longleftrightarrow> x = Some (PInt i)"
  by (cases x rule: col_int.cases) simp_all

lemma col_datetime_Some: "col_datetime x = Some d \<longleftrightarrow> x = Some (PDatetime d)"
  by (cases x rule: col_datetime.cases) simp_all

lemma row_of_keeps:
  "row_of obj = Some r \<Longrightarrow>
   obj ''id'' = Some (PInt (id' r)) \<and> obj ''created_at'' = Some (PDatetime (created_at r))"
  by (auto simp: row_of_def Option.bind_eq_Some_conv col_int_Some col_datetime_Some)

lemma update_ad_cases:
  "snd (update_ad ad_id u session) = session \<or>
   (\<exists>ad ad'. session_get session ad_id = Inr (Some ad)
      \<and> id' ad' = id' ad \<and> created_at ad' = created_at ad
      \<and> update_ad ad_id u session
          = (Inr ad', map (\<lambda>r. if id' r = ad_id then ad' else r) session))"
proof (cases "session_get session ad_id")
  case (Inl e)
  then show ?thesis by (simp add: update_ad_def)
next
  case (Inr found)
  show ?thesis
  proof (cases found)
    case None
    then show ?thesis using Inr by (simp add: update_ad_def)
  next
    case (Some ad)
    show ?thesis
    proof (cases "refused (dict_exclude_unset u) \<or> row_of (assign_all u ad) = None")
      case True
      then show ?thesis using Inr Some by (auto simp: update_ad_def)
    next
      case False
      then obtain ad' where r: "row_of (assign_all u ad) = Some ad'" by auto
      have "id' ad' = id' ad \<and> created_at ad' = created_at ad"
        using row_of_keeps [OF r] by (simp add: assign_all_id assign_all_created_at)
      then show ?thesis using False r Inr Some by (simp add: update_ad_def)
    qed
  qed
qed

lemma primary_key_same_row:
  "primary_key session \<Longrightarrow> r \<in> set session \<Longrightarrow> ad \<in> set session \<Longrightarrow> id' r = id' ad \<Longrightarrow> r = ad"
  by (auto simp: primary_key_def distinct_map dest: inj_onD)

lemma update_ad_keeps_keys:
  assumes "primary_key session"
  shows "map (\<lambda>r. (id' r, created_at r)) (snd (update_ad ad_id u session))
         = map (\<lambda>r. (id' r, created_at r)) session"
proof -
  consider (failed) "snd (update_ad ad_id u session) = session"
    | (written) ad ad' where "session_get session ad_id = Inr (Some ad)"
        "id' ad' = id' ad" "created_at ad' = created_at ad"
        "update_ad ad_id u session
         = (Inr ad', map (\<lambda>r. if id' r = ad_id then ad' else r) session)"
    using update_ad_cases [of ad_id u session] by fastforce
  then show ?thesis
  proof cases
    case failed
    then show ?thesis by simp
  next
    case written
    have ad: "ad \<in> set session" "id' ad = ad_id"
      using session_get_found [OF written(1)] by simp_all
    have "(id' (if id' r = ad_id then ad' else r), created_at (if id' r = ad_id then ad' else r))
          = (id' r, created_at r)" if "r \<in> set session" for r
      using primary_key_same_row [OF assms that ad(1)] ad(2) written(2,3) by auto
    then show ?thesis using written(4) by (simp add: comp_def)
  qed
qed

lemma snd_respond: "snd (respond x) = snd x"
  by (cases x rule: respond.cases) simp_all

text \<open>
  C7: the row that the create route returns has the id the table generated and the
  creation time of the call, whatever the body contains; and no update, for any typed
  payload and any request body, changes the id or the creation time of any row.
\<close>

theorem id_created_at_immutable:
  assumes "primary_key session"
  shows "(post_advertisement V now body session = (Inr r, session') \<longrightarrow>
            id' r = next_rowid session \<and> created_at r = now)
       \<and> map (\<lambda>r. (id' r, created_at r)) (snd (update_ad ad_id ad_update session))
           = map (\<lambda>r. (id' r, created_at r)) session
       \<and> map (\<lambda>r. (id' r, created_at r)) (snd (patch_advertisement V ad_id patch session))
           = map (\<lambda>r. (id' r, created_at r)) session"
proof -
  have c: "id' r = next_rowid session \<and> created_at r = now"
    if "post_advertisement V now body session = (Inr r, session')"
    using that
    by (auto simp: post_advertisement_def create_ad_def Let_def render_def
        split: option.splits if_splits)
  have u: "map (\<lambda>r. (id' r, created_at r)) (snd (update_ad ad_id ad_update session))
           = map (\<lambda>r. (id' r, created_at r)) session"
    using assms by (rule update_ad_keeps_keys)
  have p: "map (\<lambda>r. (id' r, created_at r)) (snd (patch_advertisement V ad_id patch session))
           = map (\<lambda>r. (id' r, created_at r)) session"
    using update_ad_keeps_keys [OF assms]
    by (simp add: patch_advertisement_def snd_respond split: option.splits)
  show ?thesis using c u p by blast
qed

theorem id_created_at_immutable_witness:
  "primary_key [bike, skates]
   \<and> fst (post_advertisement plain 9 bike_body [bike, skates])
       = Inr \<lparr>title = ''Bike'', description = None, price = Finite 100, author = ''A'',
              id' = 3, created_at = 9\<rparr>
   \<and> map (\<lambda>r. (id' r, created_at r))
        (snd (update_ad 2 \<lparr>upd_title = Set (Some ''Boots''), upd_description = Set None,
                           upd_price = Unset, upd_author = Unset\<rparr> [bike, skates]))
       = [(1, 0), (2, 3)]"
proof -
  have h: "primary_key [bike, skates]"
    by (simp add: primary_key_def bike_def skates_def)
  have n: "next_rowid [bike, skates] = 3"
    by (simp add: next_rowid_def bike_def skates_def)
  have p: "post_advertisement plain 9 bike_body [bike, skates]
           = (Inr \<lparr>title = ''Bike'', description = None, price = Finite 100, author = ''A'',
                   id' = 3, created_at = 9\<rparr>,
              [bike, skates, \<lparr>title = ''Bike'', description = None, price = Finite 100,
                   author = ''A'', id' = 3, created_at = 9\<rparr>])"
    by (simp add: post_advertisement_def validate_create_def body_dict_def plain_def
        bike_body_def members_def to_float_def create_ad_def Let_def render_def n)
  have m: "map (\<lambda>r. (id' r, created_at r)) [bike, skates] = [(1, 0), (2, 3)]"
    by (simp add: bike_def skates_def)
  show ?thesis
    using h p m id_created_at_immutable [OF h, of plain 9 bike_body _ _ 2
        "\<lparr>upd_title = Set (Some ''Boots''), upd_description = Set None,
          upd_price = Unset, upd_author = Unset\<rparr>"]
    by simp
qed

subsection \<open>The primary key is kept\<close>

lemma primary_key_empty: "primary_key []"
  by (simp add: primary_key_def)

lemma create_ad_primary_key:
  "primary_key session \<Longrightarrow> primary_key (snd (create_ad now ad session))"
  using next_rowid_fresh [of session] by (simp add: primary_key_def create_ad_def Let_def)

lemma delete_ad_primary_key:
  "primary_key session \<Longrightarrow> primary_key (snd (delete_ad ad_id session))"
  by (auto simp: primary_key_def delete_ad_def distinct_map_filter
      split: sum.splits option.splits)

lemma update_ad_primary_key:
  assumes "primary_key session"
  shows "primary_key (snd (update_ad ad_id u session))"
proof -
  have "map id' (snd (update_ad ad_id u session)) = map id' session"
    using update_ad_keeps_keys [OF assms, of ad_id u]
    by (metis (no_types, lifting) list.map_comp fst_conv map_eq_conv comp_apply)
  then show ?thesis using assms by (simp add: primary_key_def)
qed

subsection \<open>Partial update\<close>

lemma assign_all_title:
  "assign_all u ad ''title''
   = Some (case upd_title u of Unset \<Rightarrow> PStr (title ad) | Set v \<Rightarrow> py_str v)"
  by (cases "upd_title u"; cases "upd_description u"; cases "upd_price u"; cases "upd_author u")
    (simp_all add: dict_exclude_unset_def setattr_def attrs_of_def)

lemma assign_all_description:
  "assign_all u ad ''description''
   = Some (case upd_description u of Unset \<Rightarrow> py_str (description ad) | Set v \<Rightarrow> py_str v)"
  by (cases "upd_title u"; cases "upd_description u"; cases "upd_price u"; cases "upd_author u")
    (simp_all add: dict_exclude_unset_def setattr_def attrs_of_def)

lemma assign_all_price:
  "assign_all u ad ''price''
   = Some (case upd_price u of Unset \<Rightarrow> PFloat (price ad) | Set v \<Rightarrow> py_float v)"
  by (cases "upd_title u"; cases "upd_description u"; cases "upd_price u"; cases "upd_author u")
    (simp_all add: dict_exclude_unset_def setattr_def attrs_of_def)

lemma assign_all_author:
  "assign_all u ad ''author''
   = Some (case upd_author u of Unset \<Rightarrow> PStr (author ad) | Set v \<Rightarrow> py_str v)"
  by (cases "upd_title u"; cases "upd_description u"; cases "upd_price u"; cases "upd_author u")
    (simp_all add: dict_exclude_unset_def setattr_def attrs_of_def)

lemma col_str_nullable_py_str: "col_str_nullable (Some (py_str d)) = Some d"
  by (cases d) simp_all

lemma binds_null_py_str: "binds_null (py_str v) \<longleftrightarrow> v = None"
  by (cases v) simp_all

lemma binds_null_py_float: "binds_null (py_float v) \<longleftrightarrow> v = None \<or> v = Some NaN"
proof (cases v)
  case None
  then show ?thesis by simp
next
  case (Some x)
  then show ?thesis by (cases x) simp_all
qed

lemma refused_title:
  "list_ex (\<lambda>(k, v). k \<in> set not_null \<and> binds_null v) (item ''title'' (map_field py_str f))
   \<longleftrightarrow> f = Set None"
  by (cases f) (simp_all add: not_null_def binds_null_py_str)

lemma refused_description:
  "\<not> list_ex (\<lambda>(k, v). k \<in> set not_null \<and> binds_null v)
       (item ''description'' (map_field py_str f))"
  by (cases f) (simp_all add: not_null_def)

lemma refused_price:
  "list_ex (\<lambda>(k, v). k \<in> set not_null \<and> binds_null v) (item ''price'' (map_field py_float f))
   \<longleftrightarrow> f = Set None \<or> f = Set (Some NaN)"
  by (cases f) (simp_all add: not_null_def binds_null_py_float)

lemma refused_author:
  "list_ex (\<lambda>(k, v). k \<in> set not_null \<and> binds_null v) (item ''author'' (map_field py_str f))
   \<longleftrightarrow> f = Set None"
  by (cases f) (simp_all add: not_null_def binds_null_py_str)

lemma refused_iff:
  "refused (dict_exclude_unset u) \<longleftrightarrow>
     upd_title u = Set None \<or> upd_price u = Set None \<or> upd_price u = Set (Some NaN)
     \<or> upd_author u = Set None"
  unfolding refused_def dict_exclude_unset_def list_ex_append
    refused_title refused_price refused_author
  by (simp add: refused_description)

lemma row_of_assign_all:
  assumes "upd_title u \<noteq> Set None" and "upd_price u \<noteq> Set None" and "upd_author u \<noteq> Set None"
  shows "row_of (assign_all u ad) =
     Some (ad\<lparr>title := (case upd_title u of Set (Some t) \<Rightarrow> t | _ \<Rightarrow> title ad),
              description := (case upd_description u of Set d \<Rightarrow> d | Unset \<Rightarrow> description ad),
              price := (case upd_price u of Set (Some p) \<Rightarrow> p | _ \<Rightarrow> price ad),
              author := (case upd_author u of Set (Some a) \<Rightarrow> a | _ \<Rightarrow> author ad)\<rparr>)"
  using assms
  by (cases ad)
    (simp add: row_of_def assign_all_id assign_all_created_at assign_all_title
      assign_all_description assign_all_price assign_all_author col_str_nullable_py_str
      split: field.splits option.splits)

text \<open>
  C2 as stated fails: a payload that names the title with the value null makes the commit
  fail on the \<^verbatim>\<open>NOT NULL\<close> column, so the named field is not assigned and the
  handler ends with a store error.
\<close>

theorem partial_update_null_title_counterexample:
  "update_ad 1 \<lparr>upd_title = Set None, upd_description = Unset, upd_price = Unset,
                upd_author = Unset\<rparr> [bike] = (Inl StoreError, [bike])"
  by (simp add: update_ad_def session_get_def int64_def bike_def dict_exclude_unset_def
      refused_def not_null_def)

text \<open>
  C2, amended: for a row \<open>ad\<close> with the id and an update payload that gives neither
  null to title, price or author nor NaN to price, \<open>update_ad\<close> returns \<open>ad\<close> with
  exactly the named fields assigned (an empty string, a zero price and a null
  description included) and every other field as before, and writes that row in place
  of \<open>ad\<close>. The instance below has the payload that names only the price, with 50.
\<close>

theorem partial_update_present_fields:
  assumes "session_get session ad_id = Inr (Some ad)"
    and "upd_title u \<noteq> Set None" and "upd_price u \<noteq> Set None"
    and "upd_price u \<noteq> Set (Some NaN)" and "upd_author u \<noteq> Set None"
  shows "update_ad ad_id u session =
     (let ad' = ad\<lparr>title := (case upd_title u of Set (Some t) \<Rightarrow> t | _ \<Rightarrow> title ad),
                   description := (case upd_description u of Set d \<Rightarrow> d | Unset \<Rightarrow> description ad),
                   price := (case upd_price u of Set (Some p) \<Rightarrow> p | _ \<Rightarrow> price ad),
                   author := (case upd_author u of Set (Some a) \<Rightarrow> a | _ \<Rightarrow> author ad)\<rparr>
      in (Inr ad', map (\<lambda>r. if id' r = ad_id then ad' else r) session))"
proof -
  have "\<not> refused (dict_exclude_unset u)"
    using assms(2-5) by (simp add: refused_iff)
  then show ?thesis
    using assms(1) row_of_assign_all [OF assms(2,3,5), of ad]
    by (simp add: update_ad_def Let_def)
qed

theorem partial_update_present_fields_witness:
  "session_get [bike, skates] 1 = Inr (Some bike)
   \<and> update_ad 1 \<lparr>upd_title = Unset, upd_description = Unset, upd_price = Set (Some (Finite 50)),
                   upd_author = Unset\<rparr> [bike, skates]
     = (Inr (bike\<lparr>price := Finite 50\<rparr>), [bike\<lparr>price := Finite 50\<rparr>, skates])
   \<and> update_ad 2 \<lparr>upd_title = Set (Some ''''), upd_description = Set None,
                   upd_price = Set (Some (Finite 0)), upd_author = Unset\<rparr> [bike, skates]
     = (Inr (skates\<lparr>title := '''', description := None, price := Finite 0\<rparr>),
        [bike, skates\<lparr>title := '''', description := None, price := Finite 0\<rparr>])"
proof -
  have g1: "session_get [bike, skates] 1 = Inr (Some bike)"
    by (simp add: session_get_def int64_def bike_def)
  have g2: "session_get [bike, skates] 2 = Inr (Some skates)"
    by (simp add: session_get_def int64_def bike_def skates_def)
  have i: "id' bike = 1" "id' skates = 2"
    by (simp_all add: bike_def skates_def)
  show ?thesis
    using g1 i
      partial_update_present_fields [OF g1, of "\<lparr>upd_title = Unset, upd_description = Unset,
          upd_price = Set (Some (Finite 50)), upd_author = Unset\<rparr>"]
      partial_update_present_fields [OF g2, of "\<lparr>upd_title = Set (Some ''''),
          upd_description = Set None, upd_price = Set (Some (Finite 0)), upd_author = Unset\<rparr>"]
    by (simp add: Let_def)
qed

end
